theory Spec2Isabelle
  imports Main
begin

section \<open>Strings\<close>

text \<open>
  Python's \<^verbatim>\<open>str.lower()\<close> and \<^verbatim>\<open>str.replace("-", "_")\<close>, on the ASCII
  strings of the tactic and technique catalogs: \<open>str_lower\<close> maps the letters A to Z to
  a to z and leaves every other character alone; \<open>str_replace\<close> exchanges every
  occurrence of one character (the call site replaces a one-character string by another).
\<close>

definition lower_char :: "char \<Rightarrow> char" where
  "lower_char c =
     (case map_of (zip ''ABCDEFGHIJKLMNOPQRSTUVWXYZ'' ''abcdefghijklmnopqrstuvwxyz'') c of
        None \<Rightarrow> c
      | Some l \<Rightarrow> l)"

definition str_lower :: "string \<Rightarrow> string" where
  "str_lower s = map lower_char s"

definition str_replace :: "char \<Rightarrow> char \<Rightarrow> string \<Rightarrow> string" where
  "str_replace old new s = map (\<lambda>c. if c = old then new else c) s"

section \<open>Rules, tags and issues\<close>

text \<open>
  A tag exposes its namespace and its name as two tokens (\<^verbatim>\<open>attack.t1059\<close> is
  namespace \<^verbatim>\<open>attack\<close>, name \<^verbatim>\<open>t1059\<close>).
\<close>

record SigmaRuleTag =
  namespace :: string
  name :: string

text \<open>
  Python passes rules by reference: a validator keeps the rule under validation in
  \<^verbatim>\<open>self.rule\<close> and every issue lists the rules it implicates. Rule objects live in
  a store and are named by references.
\<close>

type_synonym rule_ref = nat

datatype SigmaValidationIssueSeverity = LOW | MEDIUM | HIGH | CRITICAL

text \<open>The two issue classes of \<^verbatim>\<open>sigma/validators/tags.py\<close>, with their class attributes.\<close>

datatype SigmaTagValidationIssue =
    InvalidATTACKTagIssue (rules: "rule_ref list") (tag: SigmaRuleTag)
  | InvalidTLPTagIssue (rules: "rule_ref list") (tag: SigmaRuleTag)

fun description :: "SigmaTagValidationIssue \<Rightarrow> string" where
  "description (InvalidATTACKTagIssue rs t) = ''Invalid MITRE ATT&CK tagging''"
| "description (InvalidTLPTagIssue rs t) = ''Invalid TLP tagging''"

fun severity :: "SigmaTagValidationIssue \<Rightarrow> SigmaValidationIssueSeverity" where
  "severity (InvalidATTACKTagIssue rs t) = MEDIUM"
| "severity (InvalidTLPTagIssue rs t) = MEDIUM"

section \<open>Tag validators\<close>

text \<open>
  The attributes of a tag validator object: \<open>allowed_tags\<close> (set by
  \<^verbatim>\<open>ATTACKTagValidator.__init__\<close>, a class attribute of the TLP validators) and
  \<open>rule\<close>, which no code of \<^verbatim>\<open>tags.py\<close> assigns: it is \<open>None\<close> until the
  base class's \<^verbatim>\<open>validate\<close> stores the rule there. Reading an attribute that was
  never assigned raises \<^verbatim>\<open>AttributeError\<close>.
\<close>

record SigmaTagValidator =
  allowed_tags :: "string set"
  rule :: "rule_ref option"

datatype error = AttributeError

text \<open>
  \<^verbatim>\<open>ATTACKTagValidator.__init__\<close>. The catalogs \<^verbatim>\<open>mitre_attack_tactics\<close> and
  \<^verbatim>\<open>mitre_attack_techniques\<close> are dictionaries of another module and are taken as
  parameters; \<^verbatim>\<open>.values()\<close> is the range of the dictionary, \<^verbatim>\<open>.keys()\<close> its domain.
\<close>

definition ATTACKTagValidator_init ::
  "(string \<rightharpoonup> string) \<Rightarrow> (string \<rightharpoonup> string) \<Rightarrow> SigmaTagValidator" where
  "ATTACKTagValidator_init mitre_attack_tactics mitre_attack_techniques =
     \<lparr> allowed_tags =
         (\<lambda>tactic. str_replace CHR ''-'' CHR ''_'' (str_lower tactic)) ` ran mitre_attack_tactics
         \<union> (\<lambda>technique. str_lower technique) ` dom mitre_attack_techniques,
       rule = None \<rparr>"

text \<open>
  The constructor call \<^verbatim>\<open>ATTACKTagValidator()\<close>: it returns the object that
  \<^verbatim>\<open>__init__\<close> has filled in. \<^verbatim>\<open>__init__\<close> has no \<^verbatim>\<open>raise\<close> and no check of
  the set it builds, so no branch of the call yields an error.
\<close>

definition ATTACKTagValidator_construct ::
  "(string \<rightharpoonup> string) \<Rightarrow> (string \<rightharpoonup> string) \<Rightarrow> error + SigmaTagValidator" where
  "ATTACKTagValidator_construct mitre_attack_tactics mitre_attack_techniques =
     Inr (ATTACKTagValidator_init mitre_attack_tactics mitre_attack_techniques)"

text \<open>\<^verbatim>\<open>ATTACKTagValidator.validate_tag\<close>.\<close>

definition ATTACKTagValidator_validate_tag ::
  "SigmaTagValidator \<Rightarrow> SigmaRuleTag \<Rightarrow> error + SigmaTagValidationIssue list" where
  "ATTACKTagValidator_validate_tag self t =
     (if namespace t = ''attack'' \<and> name t \<notin> allowed_tags self
      then (case rule self of
              None \<Rightarrow> Inl AttributeError
            | Some r \<Rightarrow> Inr [InvalidATTACKTagIssue [r] t])
      else Inr [])"

text \<open>\<^verbatim>\<open>TLPTagValidatorBase.validate_tag\<close>, shared by the three TLP validators.\<close>

definition TLPTagValidatorBase_validate_tag ::
  "SigmaTagValidator \<Rightarrow> SigmaRuleTag \<Rightarrow> error + SigmaTagValidationIssue list" where
  "TLPTagValidatorBase_validate_tag self t =
     (if namespace t = ''tlp'' \<and> name t \<notin> allowed_tags self
      then (case rule self of
              None \<Rightarrow> Inl AttributeError
            | Some r \<Rightarrow> Inr [InvalidTLPTagIssue [r] t])
      else Inr [])"

text \<open>The class attributes \<^verbatim>\<open>allowed_tags\<close> of the three TLP validators.\<close>

definition TLPv1TagValidator_allowed_tags :: "string set" where
  "TLPv1TagValidator_allowed_tags = {''white'', ''green'', ''amber'', ''red''}"

definition TLPv2TagValidator_allowed_tags :: "string set" where
  "TLPv2TagValidator_allowed_tags = {''clear'', ''green'', ''amber'', ''amber+strict'', ''red''}"

definition TLPTagValidator_allowed_tags :: "string set" where
  "TLPTagValidator_allowed_tags =
     TLPv1TagValidator_allowed_tags \<union> TLPv2TagValidator_allowed_tags"

text \<open>
  A freshly constructed TLP validator: the classes define no \<^verbatim>\<open>__init__\<close>, the object
  sees its class's \<open>allowed_tags\<close> and has no rule yet.
\<close>

definition TLPv1TagValidator :: SigmaTagValidator where
  "TLPv1TagValidator = \<lparr> allowed_tags = TLPv1TagValidator_allowed_tags, rule = None \<rparr>"

definition TLPv2TagValidator :: SigmaTagValidator where
  "TLPv2TagValidator = \<lparr> allowed_tags = TLPv2TagValidator_allowed_tags, rule = None \<rparr>"

definition TLPTagValidator :: SigmaTagValidator where
  "TLPTagValidator = \<lparr> allowed_tags = TLPTagValidator_allowed_tags, rule = None \<rparr>"

section \<open>The rule object model\<close>

text \<open>
  Modelled from the spec: the rule object model (\<^verbatim>\<open>sigma.rule\<close>, \<^verbatim>\<open>sigma.modifiers\<close>
  and the condition parser are consumed through their contracts only). A field match
  specification is a field name, absent for the unbound form, an ordered list of modifiers
  from a fixed vocabulary, and a list of literal values.
\<close>

datatype SigmaModifier =
    SigmaContainsModifier
  | SigmaAllModifier
  | SigmaBase64Modifier
  | SigmaBase64OffsetModifier
  | SigmaOtherModifier string

record SigmaDetectionItem =
  field :: "string option"
  modifiers :: "SigmaModifier list"
  item_values :: "string list"

text \<open>
  Modelled from the spec: the parsed condition expression, a boolean combination of
  references, each a literal name, a wildcard pattern or the keyword \<^verbatim>\<open>them\<close>. The
  selectors \<^verbatim>\<open>1 of\<close> and \<^verbatim>\<open>all of\<close> carry a quantifier, which plays no part in what
  a reference reaches.
\<close>

datatype Reference = LiteralName string | WildcardPattern string | Them

datatype Quantifier = OneOf | AllOf

datatype ConditionExpression =
    ConditionReference Reference
  | ConditionSelector Quantifier Reference
  | ConditionAND ConditionExpression ConditionExpression
  | ConditionOR ConditionExpression ConditionExpression
  | ConditionNOT ConditionExpression

text \<open>
  Modelled from the spec: a rule has an optional identifier, a title, an ordered mapping
  from sub-detection names to field match specifications, one or more condition
  expressions and a list of tags.
\<close>

record SigmaRule =
  rule_id :: "string option"
  title :: string
  detections :: "(string \<times> SigmaDetectionItem list) list"
  condition :: "ConditionExpression list"
  tags :: "SigmaRuleTag list"

type_synonym rule_store = "rule_ref \<Rightarrow> SigmaRule"

section \<open>The validate call of a tag validator\<close>

text \<open>
  A call of \<^verbatim>\<open>validate_tag\<close> as a step on the program state, the validator object
  and the store of rule objects: next to its result the call hands back the object and
  the store as it leaves them. The bodies of both methods consist of a test and two
  \<^verbatim>\<open>return\<close> statements; they assign no attribute of \<^verbatim>\<open>self\<close> and no field of a
  rule or of the tag.
\<close>

definition ATTACKTagValidator_validate_tag_call ::
  "SigmaTagValidator \<Rightarrow> rule_store \<Rightarrow> SigmaRuleTag \<Rightarrow>
   (error + SigmaTagValidationIssue list) \<times> SigmaTagValidator \<times> rule_store" where
  "ATTACKTagValidator_validate_tag_call self store t =
     (ATTACKTagValidator_validate_tag self t, self, store)"

definition TLPTagValidatorBase_validate_tag_call ::
  "SigmaTagValidator \<Rightarrow> rule_store \<Rightarrow> SigmaRuleTag \<Rightarrow>
   (error + SigmaTagValidationIssue list) \<times> SigmaTagValidator \<times> rule_store" where
  "TLPTagValidatorBase_validate_tag_call self store t =
     (TLPTagValidatorBase_validate_tag self t, self, store)"

text \<open>
  The comprehension over the tags: each call of \<^verbatim>\<open>validate_tag\<close> runs on the
  validator and the store as the call before left them; the first error ends the
  comprehension, otherwise the issues of all calls are concatenated in order.
\<close>

fun validate_tags ::
  "(SigmaTagValidator \<Rightarrow> rule_store \<Rightarrow> SigmaRuleTag \<Rightarrow>
      (error + 'a list) \<times> SigmaTagValidator \<times> rule_store) \<Rightarrow>
   SigmaTagValidator \<Rightarrow> rule_store \<Rightarrow> SigmaRuleTag list \<Rightarrow>
   (error + 'a list) \<times> SigmaTagValidator \<times> rule_store" where
  "validate_tags validate_tag self store [] = (Inr [], self, store)"
| "validate_tags validate_tag self store (t # ts) =
     (case validate_tag self store t of
        (Inl e, self', store') \<Rightarrow> (Inl e, self', store')
      | (Inr issues, self', store') \<Rightarrow>
          (case validate_tags validate_tag self' store' ts of
             (Inl e, self'', store'') \<Rightarrow> (Inl e, self'', store'')
           | (Inr rest, self'', store'') \<Rightarrow> (Inr (issues @ rest), self'', store'')))"

text \<open>
  Modelled from the spec: \<^verbatim>\<open>SigmaTagValidator.validate\<close> of \<^verbatim>\<open>sigma.validators.base\<close>,
  which \<^verbatim>\<open>tags.py\<close> inherits. It makes the rule the rule under validation and returns
  the issues of \<^verbatim>\<open>validate_tag\<close> for every tag of the rule, in the order of the tags.
  The call is given the store of rule objects and returns the store and the validator as
  the calls of \<^verbatim>\<open>validate_tag\<close> leave them, so that every effect of the call is in
  its result.
\<close>

definition SigmaTagValidator_validate ::
  "(SigmaTagValidator \<Rightarrow> rule_store \<Rightarrow> SigmaRuleTag \<Rightarrow>
      (error + SigmaTagValidationIssue list) \<times> SigmaTagValidator \<times> rule_store) \<Rightarrow>
   SigmaTagValidator \<Rightarrow> rule_store \<Rightarrow> rule_ref \<Rightarrow>
   (error + SigmaTagValidationIssue list) \<times> SigmaTagValidator \<times> rule_store" where
  "SigmaTagValidator_validate validate_tag self store r =
     validate_tags validate_tag (self\<lparr>rule := Some r\<rparr>) store (tags (store r))"

definition ATTACKTagValidator_validate ::
  "SigmaTagValidator \<Rightarrow> rule_store \<Rightarrow> rule_ref \<Rightarrow>
   (error + SigmaTagValidationIssue list) \<times> SigmaTagValidator \<times> rule_store" where
  "ATTACKTagValidator_validate = SigmaTagValidator_validate ATTACKTagValidator_validate_tag_call"

definition TLPTagValidatorBase_validate ::
  "SigmaTagValidator \<Rightarrow> rule_store \<Rightarrow> rule_ref \<Rightarrow>
   (error + SigmaTagValidationIssue list) \<times> SigmaTagValidator \<times> rule_store" where
  "TLPTagValidatorBase_validate =
     SigmaTagValidator_validate TLPTagValidatorBase_validate_tag_call"

text \<open>The rule of \<^verbatim>\<open>test_validator_tlp_tags\<close>, with the tags the test assigns.\<close>

definition tlp_test_rule :: "SigmaRuleTag list \<Rightarrow> SigmaRule" where
  "tlp_test_rule ts =
     \<lparr> rule_id = None, title = ''Test'',
       detections =
         [(''sel'', [\<lparr> field = Some ''field'', modifiers = [], item_values = [''value''] \<rparr>])],
       condition = [ConditionReference (LiteralName ''sel'')],
       tags = ts \<rparr>"

section \<open>Dangling-detection validator\<close>

text \<open>
  Modelled from the spec: the glob of a wildcard reference (\<^verbatim>\<open>prefix*\<close>,
  \<^verbatim>\<open>*suffix\<close>, \<^verbatim>\<open>*infix*\<close>). A star of the pattern matches any run of characters,
  the empty one too; every other character matches itself.
\<close>

fun glob_match :: "string \<Rightarrow> string \<Rightarrow> bool" where
  "glob_match [] [] = True"
| "glob_match [] (c # s) = False"
| "glob_match (p # ps) [] = (p = CHR ''*'' \<and> glob_match ps [])"
| "glob_match (p # ps) (c # s) =
     (if p = CHR ''*'' then glob_match ps (c # s) \<or> glob_match (p # ps) s
      else p = c \<and> glob_match ps s)"

text \<open>
  Modelled from the spec: the condition reference resolver
  (\<^verbatim>\<open>sigma.validators.condition\<close>). Step 2 of the algorithm: a literal name is added if
  it is a defined name, a wildcard pattern adds every defined name it matches, the keyword
  \<^verbatim>\<open>them\<close> adds every defined name. \<open>D\<close> is the list of defined names.
\<close>

fun resolve_reference :: "string list \<Rightarrow> Reference \<Rightarrow> string set" where
  "resolve_reference D (LiteralName n) = (if n \<in> set D then {n} else {})"
| "resolve_reference D (WildcardPattern p) = set (filter (glob_match p) D)"
| "resolve_reference D Them = set D"

fun condition_referenced :: "string list \<Rightarrow> ConditionExpression \<Rightarrow> string set" where
  "condition_referenced D (ConditionReference ref) = resolve_reference D ref"
| "condition_referenced D (ConditionSelector q ref) = resolve_reference D ref"
| "condition_referenced D (ConditionAND a b) =
     condition_referenced D a \<union> condition_referenced D b"
| "condition_referenced D (ConditionOR a b) =
     condition_referenced D a \<union> condition_referenced D b"
| "condition_referenced D (ConditionNOT a) = condition_referenced D a"

text \<open>
  The reference nodes of a condition expression, wherever they stand under the boolean
  operators. The resolver does not use this function; it states what the walk visits.
\<close>

fun references :: "ConditionExpression \<Rightarrow> Reference set" where
  "references (ConditionReference ref) = {ref}"
| "references (ConditionSelector q ref) = {ref}"
| "references (ConditionAND a b) = references a \<union> references b"
| "references (ConditionOR a b) = references a \<union> references b"
| "references (ConditionNOT a) = references a"

text \<open>The walk over every condition expression of the rule, collecting the set \<open>R\<close>.\<close>

definition referenced_names :: "string list \<Rightarrow> ConditionExpression list \<Rightarrow> string set" where
  "referenced_names D conds = fold (\<lambda>c R. R \<union> condition_referenced D c) conds {}"

datatype DanglingDetectionIssue =
  DanglingDetectionIssue (dangling_rules: "rule_ref list") (detection_name: string)

text \<open>
  Modelled from the spec: \<^verbatim>\<open>DanglingDetectionValidator.validate\<close>. Steps 1 and 3 of the
  algorithm: \<open>D\<close> is the keys of the detection mapping in insertion order, and one issue
  is emitted per name of \<open>D\<close> outside \<open>R\<close>, in the order of \<open>D\<close>.
\<close>

definition DanglingDetectionValidator_validate ::
  "rule_store \<Rightarrow> rule_ref \<Rightarrow> DanglingDetectionIssue list" where
  "DanglingDetectionValidator_validate store r =
     (let D = map fst (detections (store r));
          R = referenced_names D (condition (store r))
      in map (\<lambda>n. DanglingDetectionIssue [r] n) (filter (\<lambda>n. n \<notin> R) D))"

text \<open>The rules of the dangling-detection tests: detections with one field match each.\<close>

definition detection_of :: "string \<Rightarrow> string \<Rightarrow> string \<Rightarrow> string \<times> SigmaDetectionItem list" where
  "detection_of n f v = (n, [\<lparr> field = Some f, modifiers = [], item_values = [v] \<rparr>])"

definition dangling_test_rule ::
  "(string \<times> SigmaDetectionItem list) list \<Rightarrow> ConditionExpression \<Rightarrow> SigmaRule" where
  "dangling_test_rule ds c =
     \<lparr> rule_id = None, title = ''Test'', detections = ds, condition = [c], tags = [] \<rparr>"

section \<open>Modifier-combination validator\<close>

text \<open>
  Modelled from the spec: the members of the contains family of modifiers. The spec names
  no member but \<^verbatim>\<open>contains\<close> itself.
\<close>

definition is_contains_family :: "SigmaModifier \<Rightarrow> bool" where
  "is_contains_family m = (m = SigmaContainsModifier)"

text \<open>
  Modelled from the spec: the scan for a \<^verbatim>\<open>base64offset\<close> with no modifier of the
  contains family anywhere later in the sequence.
\<close>

fun base64offset_without_contains :: "SigmaModifier list \<Rightarrow> bool" where
  "base64offset_without_contains [] = False"
| "base64offset_without_contains (m # ms) =
     ((m = SigmaBase64OffsetModifier \<and> \<not> list_ex is_contains_family ms)
      \<or> base64offset_without_contains ms)"

text \<open>
  Modelled from the spec: the multiset derived from the modifier sequence, as a table of
  counts in the order of first appearance.
\<close>

fun counter_add :: "'a \<Rightarrow> ('a \<times> nat) list \<Rightarrow> ('a \<times> nat) list" where
  "counter_add x [] = [(x, 1)]"
| "counter_add x ((y, n) # t) = (if x = y then (y, Suc n) # t else (y, n) # counter_add x t)"

definition Counter :: "'a list \<Rightarrow> ('a \<times> nat) list" where
  "Counter xs = fold counter_add xs []"

text \<open>
  Modelled from the spec and the tests: the modifiers whose repetition is let pass. Any
  modifier that appears more than once is reported, but \<^verbatim>\<open>field|base64|base64\<close>
  yields no issue (\<^verbatim>\<open>test_validator_multiple_base64_modifier\<close>); no other exemption
  is in the tests.
\<close>

definition multiple_exempt_modifiers :: "SigmaModifier set" where
  "multiple_exempt_modifiers = {SigmaBase64Modifier}"

definition multiple_modifiers :: "SigmaModifier list \<Rightarrow> SigmaModifier set" where
  "multiple_modifiers mods =
     set (map fst (filter (\<lambda>(m, n). n > 1 \<and> m \<notin> multiple_exempt_modifiers) (Counter mods)))"

datatype SigmaModifierValidationIssue =
    AllWithoutContainsModifierIssue
      (item_rules: "rule_ref list") (detection_item: SigmaDetectionItem)
  | Base64OffsetWithoutContainsModifierIssue
      (item_rules: "rule_ref list") (detection_item: SigmaDetectionItem)
  | ModifierAppliedMultipleIssue
      (item_rules: "rule_ref list") (detection_item: SigmaDetectionItem)
      (duplicated: "SigmaModifier set")

text \<open>
  Modelled from the spec: \<^verbatim>\<open>InvalidModifierCombinationsValidator\<close>
  (\<^verbatim>\<open>sigma.validators.modifiers\<close>), on one field match specification: the three defect
  classes in the order the spec lists them.
\<close>

definition InvalidModifierCombinationsValidator_validate_detection_item ::
  "rule_ref \<Rightarrow> SigmaDetectionItem \<Rightarrow> SigmaModifierValidationIssue list" where
  "InvalidModifierCombinationsValidator_validate_detection_item r item =
     (if field item \<noteq> None \<and> SigmaAllModifier \<in> set (modifiers item)
         \<and> \<not> list_ex is_contains_family (modifiers item)
      then [AllWithoutContainsModifierIssue [r] item] else [])
     @ (if base64offset_without_contains (modifiers item)
        then [Base64OffsetWithoutContainsModifierIssue [r] item] else [])
     @ (let multiple = multiple_modifiers (modifiers item)
        in if multiple \<noteq> {} then [ModifierAppliedMultipleIssue [r] item multiple] else [])"

text \<open>
  Modelled from the spec: the validator on a rule, every field match specification of
  every sub-detection on its own, in the order of the detection mapping.
\<close>

definition InvalidModifierCombinationsValidator_validate ::
  "rule_store \<Rightarrow> rule_ref \<Rightarrow> SigmaModifierValidationIssue list" where
  "InvalidModifierCombinationsValidator_validate store r =
     concat (map (InvalidModifierCombinationsValidator_validate_detection_item r)
               (concat (map snd (detections (store r)))))"

text \<open>The rule of the modifier tests: one sub-detection \<^verbatim>\<open>sel\<close> with one field match.\<close>

definition modifier_test_rule :: "SigmaDetectionItem \<Rightarrow> SigmaRule" where
  "modifier_test_rule item =
     \<lparr> rule_id = None, title = ''Test'', detections = [(''sel'', [item])],
       condition = [ConditionReference (LiteralName ''sel'')], tags = [] \<rparr>"

section \<open>Properties of the tag validators\<close>

lemma ATTACK_validate_tag_rule:
  "rule self = Some r \<Longrightarrow>
   ATTACKTagValidator_validate_tag self t =
     Inr (if namespace t = ''attack'' \<and> name t \<notin> allowed_tags self
          then [InvalidATTACKTagIssue [r] t] else [])"
  by (simp add: ATTACKTagValidator_validate_tag_def)

lemma TLP_validate_tag_rule:
  "rule self = Some r \<Longrightarrow>
   TLPTagValidatorBase_validate_tag self t =
     Inr (if namespace t = ''tlp'' \<and> name t \<notin> allowed_tags self
          then [InvalidTLPTagIssue [r] t] else [])"
  by (simp add: TLPTagValidatorBase_validate_tag_def)

lemma validate_tag_call_frame:
  "snd (ATTACKTagValidator_validate_tag_call self store t) = (self, store)"
  "snd (TLPTagValidatorBase_validate_tag_call self store t) = (self, store)"
  by (simp_all add: ATTACKTagValidator_validate_tag_call_def
      TLPTagValidatorBase_validate_tag_call_def)

lemma validate_tags_frame:
  assumes "\<And>v st t. snd (vt v st t) = (v, st)"
  shows "snd (validate_tags vt self store ts) = (self, store)"
proof (induction ts)
  case Nil
  then show ?case by simp
next
  case (Cons t ts)
  obtain res where call: "vt self store t = (res, self, store)"
    using assms [of self store t] by (cases "vt self store t") simp
  obtain res' where rest: "validate_tags vt self store ts = (res', self, store)"
    using Cons.IH by (cases "validate_tags vt self store ts") simp
  show ?case
    by (simp add: call rest split: sum.splits)
qed

lemma validate_tags_result:
  assumes "\<And>t. t \<in> set ts \<Longrightarrow> vt self store t = (Inr (f t), self, store)"
  shows "validate_tags vt self store ts = (Inr (concat (map f ts)), self, store)"
  using assms by (induction ts) simp_all

lemma ATTACK_validate_eq:
  "ATTACKTagValidator_validate self store r =
     (Inr (concat (map (\<lambda>t. if namespace t = ''attack'' \<and> name t \<notin> allowed_tags self
                              then [InvalidATTACKTagIssue [r] t] else [])
                    (tags (store r)))),
      self\<lparr>rule := Some r\<rparr>, store)"
  unfolding ATTACKTagValidator_validate_def SigmaTagValidator_validate_def
  by (rule validate_tags_result [THEN trans])
    (simp_all add: ATTACKTagValidator_validate_tag_call_def ATTACK_validate_tag_rule)

lemma TLP_validate_eq:
  "TLPTagValidatorBase_validate self store r =
     (Inr (concat (map (\<lambda>t. if namespace t = ''tlp'' \<and> name t \<notin> allowed_tags self
                              then [InvalidTLPTagIssue [r] t] else [])
                    (tags (store r)))),
      self\<lparr>rule := Some r\<rparr>, store)"
  unfolding TLPTagValidatorBase_validate_def SigmaTagValidator_validate_def
  by (rule validate_tags_result [THEN trans])
    (simp_all add: TLPTagValidatorBase_validate_tag_call_def TLP_validate_tag_rule)

lemma ATTACK_validate_result:
  "fst (ATTACKTagValidator_validate self store r) =
     Inr (concat (map (\<lambda>t. if namespace t = ''attack'' \<and> name t \<notin> allowed_tags self
                            then [InvalidATTACKTagIssue [r] t] else [])
                  (tags (store r))))"
  by (simp add: ATTACK_validate_eq)

lemma TLP_validate_result:
  "fst (TLPTagValidatorBase_validate self store r) =
     Inr (concat (map (\<lambda>t. if namespace t = ''tlp'' \<and> name t \<notin> allowed_tags self
                            then [InvalidTLPTagIssue [r] t] else [])
                  (tags (store r))))"
  by (simp add: TLP_validate_eq)

lemma validate_state:
  "snd (ATTACKTagValidator_validate self store r) = (self\<lparr>rule := Some r\<rparr>, store)"
  "snd (TLPTagValidatorBase_validate self store r) = (self\<lparr>rule := Some r\<rparr>, store)"
  unfolding ATTACKTagValidator_validate_def TLPTagValidatorBase_validate_def
    SigmaTagValidator_validate_def
  by (rule validate_tags_frame, rule validate_tag_call_frame)+

text \<open>
  Claim C1. The allow-set that \<^verbatim>\<open>__init__\<close> builds is the union of the tactic
  catalog's display names, lower-cased with \<^verbatim>\<open>-\<close> replaced by \<^verbatim>\<open>_\<close>, and the
  technique catalog's keys, lower-cased. For a validator holding that set, with a rule
  under validation, \<^verbatim>\<open>validate_tag\<close> returns exactly one \<open>InvalidATTACKTagIssue\<close>
  for a tag of namespace \<^verbatim>\<open>attack\<close> whose name is outside the set, the empty list for
  one whose name is in it, and the empty list for a tag of any other namespace; a
  \<^verbatim>\<open>validate\<close> call leaves the set as construction built it.
\<close>

theorem attack_validator_allow_set:
  "allowed_tags (ATTACKTagValidator_init T Q) =
     {str_replace CHR ''-'' CHR ''_'' (str_lower tactic) | tactic. tactic \<in> ran T}
     \<union> {str_lower technique | technique. technique \<in> dom Q}
   \<and> (allowed_tags self = allowed_tags (ATTACKTagValidator_init T Q) \<longrightarrow>
        (namespace t = ''attack'' \<and> name t \<notin> allowed_tags (ATTACKTagValidator_init T Q)
           \<and> rule self = Some r \<longrightarrow>
           ATTACKTagValidator_validate_tag self t = Inr [InvalidATTACKTagIssue [r] t])
      \<and> (namespace t = ''attack'' \<and> name t \<in> allowed_tags (ATTACKTagValidator_init T Q) \<longrightarrow>
           ATTACKTagValidator_validate_tag self t = Inr [])
      \<and> (namespace t \<noteq> ''attack'' \<longrightarrow> ATTACKTagValidator_validate_tag self t = Inr [])
      \<and> allowed_tags (fst (snd (ATTACKTagValidator_validate self store r'))) =
           allowed_tags (ATTACKTagValidator_init T Q))"
proof -
  have "allowed_tags (ATTACKTagValidator_init T Q) =
     {str_replace CHR ''-'' CHR ''_'' (str_lower tactic) | tactic. tactic \<in> ran T}
     \<union> {str_lower technique | technique. technique \<in> dom Q}"
    unfolding ATTACKTagValidator_init_def by auto
  moreover have "allowed_tags (fst (snd (ATTACKTagValidator_validate self store r'))) =
      allowed_tags self"
    by (simp add: validate_state)
  ultimately show ?thesis
    by (simp add: ATTACKTagValidator_validate_tag_def)
qed

theorem attack_validator_allow_set_witness:
  "allowed_tags (ATTACKTagValidator_init [''TA0011'' \<mapsto> ''Command-And-Control'']
                   [''T1001.001'' \<mapsto> ''Junk Data'']) = {''command_and_control'', ''t1001.001''}
   \<and> ATTACKTagValidator_validate_tag
        \<lparr> allowed_tags = {''command_and_control'', ''t1001.001''}, rule = Some 7 \<rparr>
        \<lparr> namespace = ''attack'', name = ''test1'' \<rparr>
      = Inr [InvalidATTACKTagIssue [7] \<lparr> namespace = ''attack'', name = ''test1'' \<rparr>]
   \<and> ATTACKTagValidator_validate_tag
        \<lparr> allowed_tags = {''command_and_control'', ''t1001.001''}, rule = Some 7 \<rparr>
        \<lparr> namespace = ''attack'', name = ''t1001.001'' \<rparr> = Inr []"
proof -
  let ?T = "[''TA0011'' \<mapsto> ''Command-And-Control'']"
  let ?Q = "[''T1001.001'' \<mapsto> ''Junk Data'']"
  have a: "allowed_tags (ATTACKTagValidator_init ?T ?Q) = {''command_and_control'', ''t1001.001''}"
    by (simp add: ATTACKTagValidator_init_def str_lower_def str_replace_def lower_char_def
        insert_commute)
  note verdicts = attack_validator_allow_set [THEN conjunct2, of
      "\<lparr> allowed_tags = {''command_and_control'', ''t1001.001''}, rule = Some 7 \<rparr>"
      ?T ?Q _ 7, unfolded a]
  show ?thesis
    using verdicts [of "\<lparr> namespace = ''attack'', name = ''test1'' \<rparr>"]
      verdicts [of "\<lparr> namespace = ''attack'', name = ''t1001.001'' \<rparr>"]
    by (simp add: a)
qed

lemma TLP_allowed_sets:
  "TLPv1TagValidator_allowed_tags = {''white'', ''green'', ''amber'', ''red''}"
  "TLPv2TagValidator_allowed_tags = {''clear'', ''green'', ''amber'', ''amber+strict'', ''red''}"
  "TLPTagValidator_allowed_tags =
     {''white'', ''green'', ''amber'', ''red'', ''clear'', ''amber+strict''}"
  by (auto simp: TLPv1TagValidator_allowed_tags_def TLPv2TagValidator_allowed_tags_def
      TLPTagValidator_allowed_tags_def)

lemma TLP_fresh_allowed:
  "allowed_tags TLPv1TagValidator = TLPv1TagValidator_allowed_tags"
  "allowed_tags TLPv2TagValidator = TLPv2TagValidator_allowed_tags"
  "allowed_tags TLPTagValidator = TLPTagValidator_allowed_tags"
  by (simp_all add: TLPv1TagValidator_def TLPv2TagValidator_def TLPTagValidator_def)

lemma TLP_test_v1:
  "tags (store r) = [\<lparr>namespace = ''tlp'', name = ''clear''\<rparr>, \<lparr>namespace = ''tlp'', name = ''white''\<rparr>] \<Longrightarrow>
   fst (TLPTagValidatorBase_validate TLPv1TagValidator store r) =
     Inr [InvalidTLPTagIssue [r] \<lparr>namespace = ''tlp'', name = ''clear''\<rparr>]"
  by (simp add: TLP_validate_result TLP_fresh_allowed TLP_allowed_sets)

lemma TLP_test_v2:
  "tags (store r) = [\<lparr>namespace = ''tlp'', name = ''clear''\<rparr>, \<lparr>namespace = ''tlp'', name = ''white''\<rparr>] \<Longrightarrow>
   fst (TLPTagValidatorBase_validate TLPv2TagValidator store r) =
     Inr [InvalidTLPTagIssue [r] \<lparr>namespace = ''tlp'', name = ''white''\<rparr>]"
  by (simp add: TLP_validate_result TLP_fresh_allowed TLP_allowed_sets)

lemma TLP_test_union:
  "tags (store r) = [\<lparr>namespace = ''tlp'', name = ''clear''\<rparr>, \<lparr>namespace = ''tlp'', name = ''white''\<rparr>] \<Longrightarrow>
   fst (TLPTagValidatorBase_validate TLPTagValidator store r) = Inr []"
  by (simp add: TLP_validate_result TLP_fresh_allowed TLP_allowed_sets)

lemma TLP_test_union_invalid:
  "tags (store r) = [\<lparr>namespace = ''tlp'', name = ''clear''\<rparr>, \<lparr>namespace = ''tlp'', name = ''white''\<rparr>,
                     \<lparr>namespace = ''tlp'', name = ''test''\<rparr>] \<Longrightarrow>
   fst (TLPTagValidatorBase_validate TLPTagValidator store r) =
     Inr [InvalidTLPTagIssue [r] \<lparr>namespace = ''tlp'', name = ''test''\<rparr>]"
  by (simp add: TLP_validate_result TLP_fresh_allowed TLP_allowed_sets)

text \<open>
  Claim C2. For a tag of namespace \<^verbatim>\<open>tlp\<close> and a validator with a rule under
  validation, each of the three TLP validators returns exactly one \<open>InvalidTLPTagIssue\<close>
  if the tag's name is outside its allow-set and the empty list otherwise, where the
  allow-set of version 1 is white, green, amber, red, that of version 2 is clear, green,
  amber, amber+strict, red, and that of the third validator is the union of both. A tag
  of another namespace is never flagged. On a rule tagged \<^verbatim>\<open>tlp.clear\<close> and
  \<^verbatim>\<open>tlp.white\<close> the version 1 validator flags only \<^verbatim>\<open>tlp.clear\<close>, the version 2
  validator only \<^verbatim>\<open>tlp.white\<close>, the union validator neither; with \<^verbatim>\<open>tlp.test\<close>
  added the union validator returns exactly one issue, for \<^verbatim>\<open>tlp.test\<close>.
\<close>

theorem tlp_validators_allow_sets:
  "(rule self = Some r \<and> namespace t = ''tlp'' \<longrightarrow>
      (allowed_tags self = TLPv1TagValidator_allowed_tags \<longrightarrow>
         TLPTagValidatorBase_validate_tag self t =
           (if name t \<in> {''white'', ''green'', ''amber'', ''red''} then Inr []
            else Inr [InvalidTLPTagIssue [r] t]))
    \<and> (allowed_tags self = TLPv2TagValidator_allowed_tags \<longrightarrow>
         TLPTagValidatorBase_validate_tag self t =
           (if name t \<in> {''clear'', ''green'', ''amber'', ''amber+strict'', ''red''} then Inr []
            else Inr [InvalidTLPTagIssue [r] t]))
    \<and> (allowed_tags self = TLPTagValidator_allowed_tags \<longrightarrow>
         TLPTagValidatorBase_validate_tag self t =
           (if name t \<in> {''white'', ''green'', ''amber'', ''red''}
                          \<union> {''clear'', ''green'', ''amber'', ''amber+strict'', ''red''}
            then Inr [] else Inr [InvalidTLPTagIssue [r] t])))
   \<and> (namespace t \<noteq> ''tlp'' \<longrightarrow> TLPTagValidatorBase_validate_tag self t = Inr [])
   \<and> allowed_tags TLPv1TagValidator = {''white'', ''green'', ''amber'', ''red''}
   \<and> allowed_tags TLPv2TagValidator = {''clear'', ''green'', ''amber'', ''amber+strict'', ''red''}
   \<and> allowed_tags TLPTagValidator = allowed_tags TLPv1TagValidator \<union> allowed_tags TLPv2TagValidator
   \<and> (tags (store q) = [\<lparr>namespace = ''tlp'', name = ''clear''\<rparr>,
                         \<lparr>namespace = ''tlp'', name = ''white''\<rparr>] \<longrightarrow>
        fst (TLPTagValidatorBase_validate TLPv1TagValidator store q) =
          Inr [InvalidTLPTagIssue [q] \<lparr>namespace = ''tlp'', name = ''clear''\<rparr>]
      \<and> fst (TLPTagValidatorBase_validate TLPv2TagValidator store q) =
          Inr [InvalidTLPTagIssue [q] \<lparr>namespace = ''tlp'', name = ''white''\<rparr>]
      \<and> fst (TLPTagValidatorBase_validate TLPTagValidator store q) = Inr [])
   \<and> (tags (store q) = [\<lparr>namespace = ''tlp'', name = ''clear''\<rparr>,
                         \<lparr>namespace = ''tlp'', name = ''white''\<rparr>,
                         \<lparr>namespace = ''tlp'', name = ''test''\<rparr>] \<longrightarrow>
        fst (TLPTagValidatorBase_validate TLPTagValidator store q) =
          Inr [InvalidTLPTagIssue [q] \<lparr>namespace = ''tlp'', name = ''test''\<rparr>])"
proof -
  have verdict: "rule self = Some r \<and> namespace t = ''tlp'' \<longrightarrow>
      (allowed_tags self = TLPv1TagValidator_allowed_tags \<longrightarrow>
         TLPTagValidatorBase_validate_tag self t =
           (if name t \<in> {''white'', ''green'', ''amber'', ''red''} then Inr []
            else Inr [InvalidTLPTagIssue [r] t]))
    \<and> (allowed_tags self = TLPv2TagValidator_allowed_tags \<longrightarrow>
         TLPTagValidatorBase_validate_tag self t =
           (if name t \<in> {''clear'', ''green'', ''amber'', ''amber+strict'', ''red''} then Inr []
            else Inr [InvalidTLPTagIssue [r] t]))
    \<and> (allowed_tags self = TLPTagValidator_allowed_tags \<longrightarrow>
         TLPTagValidatorBase_validate_tag self t =
           (if name t \<in> {''white'', ''green'', ''amber'', ''red''}
                          \<union> {''clear'', ''green'', ''amber'', ''amber+strict'', ''red''}
            then Inr [] else Inr [InvalidTLPTagIssue [r] t]))"
    by (simp add: TLP_validate_tag_rule TLPv1TagValidator_allowed_tags_def
        TLPv2TagValidator_allowed_tags_def TLPTagValidator_allowed_tags_def)
  have other: "namespace t \<noteq> ''tlp'' \<longrightarrow> TLPTagValidatorBase_validate_tag self t = Inr []"
    by (simp add: TLPTagValidatorBase_validate_tag_def)
  have sets: "allowed_tags TLPv1TagValidator = {''white'', ''green'', ''amber'', ''red''}"
    "allowed_tags TLPv2TagValidator = {''clear'', ''green'', ''amber'', ''amber+strict'', ''red''}"
    "allowed_tags TLPTagValidator = allowed_tags TLPv1TagValidator \<union> allowed_tags TLPv2TagValidator"
    by (simp_all add: TLP_fresh_allowed TLPv1TagValidator_allowed_tags_def
        TLPv2TagValidator_allowed_tags_def TLPTagValidator_allowed_tags_def)
  from verdict other sets TLP_test_v1 [of store q] TLP_test_v2 [of store q]
    TLP_test_union [of store q] TLP_test_union_invalid [of store q]
  show ?thesis by blast
qed

theorem tlp_validators_allow_sets_witness:
  "TLPTagValidatorBase_validate_tag
      \<lparr> allowed_tags = TLPv1TagValidator_allowed_tags, rule = Some 3 \<rparr>
      \<lparr> namespace = ''tlp'', name = ''clear'' \<rparr>
     = Inr [InvalidTLPTagIssue [3] \<lparr> namespace = ''tlp'', name = ''clear'' \<rparr>]
   \<and> TLPTagValidatorBase_validate_tag
      \<lparr> allowed_tags = TLPv2TagValidator_allowed_tags, rule = Some 3 \<rparr>
      \<lparr> namespace = ''tlp'', name = ''clear'' \<rparr> = Inr []
   \<and> TLPTagValidatorBase_validate_tag
      \<lparr> allowed_tags = TLPTagValidator_allowed_tags, rule = Some 3 \<rparr>
      \<lparr> namespace = ''tlp'', name = ''test'' \<rparr>
     = Inr [InvalidTLPTagIssue [3] \<lparr> namespace = ''tlp'', name = ''test'' \<rparr>]
   \<and> TLPTagValidatorBase_validate_tag TLPv1TagValidator
      \<lparr> namespace = ''attack'', name = ''clear'' \<rparr> = Inr []
   \<and> fst (TLPTagValidatorBase_validate TLPv1TagValidator
        (\<lambda>_. tlp_test_rule [\<lparr>namespace = ''tlp'', name = ''clear''\<rparr>,
                             \<lparr>namespace = ''tlp'', name = ''white''\<rparr>]) 0)
     = Inr [InvalidTLPTagIssue [0] \<lparr>namespace = ''tlp'', name = ''clear''\<rparr>]
   \<and> fst (TLPTagValidatorBase_validate TLPTagValidator
        (\<lambda>_. tlp_test_rule [\<lparr>namespace = ''tlp'', name = ''clear''\<rparr>,
                             \<lparr>namespace = ''tlp'', name = ''white''\<rparr>,
                             \<lparr>namespace = ''tlp'', name = ''test''\<rparr>]) 0)
     = Inr [InvalidTLPTagIssue [0] \<lparr>namespace = ''tlp'', name = ''test''\<rparr>]"
proof -
  let ?clear = "\<lparr> namespace = ''tlp'', name = ''clear'' \<rparr>"
  let ?white = "\<lparr> namespace = ''tlp'', name = ''white'' \<rparr>"
  let ?test = "\<lparr> namespace = ''tlp'', name = ''test'' \<rparr>"
  have t2: "tags (tlp_test_rule [?clear, ?white]) = [?clear, ?white]"
    and t3: "tags (tlp_test_rule [?clear, ?white, ?test]) = [?clear, ?white, ?test]"
    by (simp_all add: tlp_test_rule_def)
  show ?thesis
    using tlp_validators_allow_sets
        [of "\<lparr> allowed_tags = TLPv1TagValidator_allowed_tags, rule = Some 3 \<rparr>" 3 ?clear
          "\<lambda>_. tlp_test_rule [?clear, ?white]" 0]
      tlp_validators_allow_sets
        [of "\<lparr> allowed_tags = TLPv2TagValidator_allowed_tags, rule = Some 3 \<rparr>" 3 ?clear
          "\<lambda>_. tlp_test_rule [?clear, ?white, ?test]" 0]
      tlp_validators_allow_sets
        [of "\<lparr> allowed_tags = TLPTagValidator_allowed_tags, rule = Some 3 \<rparr>" 3 ?test]
      tlp_validators_allow_sets
        [of TLPv1TagValidator _ "\<lparr> namespace = ''attack'', name = ''clear'' \<rparr>"]
    by (simp add: t2 t3)
qed

text \<open>
  Claim C9. For every tag, the union TLP validator emits an issue for the tag if and only
  if both the version 1 validator and the version 2 validator emit one for it (each
  validator with a rule under validation), and its allow-set is the union of theirs.
\<close>

theorem tlp_union_flags_iff_both:
  assumes "allowed_tags u = TLPTagValidator_allowed_tags"
    and "allowed_tags v1 = TLPv1TagValidator_allowed_tags"
    and "allowed_tags v2 = TLPv2TagValidator_allowed_tags"
    and "rule u = Some r" and "rule v1 = Some r1" and "rule v2 = Some r2"
  shows "((\<exists>i. TLPTagValidatorBase_validate_tag u t = Inr [i]) \<longleftrightarrow>
            (\<exists>i. TLPTagValidatorBase_validate_tag v1 t = Inr [i])
          \<and> (\<exists>i. TLPTagValidatorBase_validate_tag v2 t = Inr [i]))
         \<and> allowed_tags u = allowed_tags v1 \<union> allowed_tags v2"
  using assms
  by (simp add: TLP_validate_tag_rule TLPTagValidator_allowed_tags_def)

theorem tlp_union_flags_iff_both_witness:
  "(\<exists>i. TLPTagValidatorBase_validate_tag (TLPTagValidator\<lparr>rule := Some 1\<rparr>)
          \<lparr>namespace = ''tlp'', name = ''test''\<rparr> = Inr [i])
   \<and> (\<exists>i. TLPTagValidatorBase_validate_tag (TLPv1TagValidator\<lparr>rule := Some 1\<rparr>)
          \<lparr>namespace = ''tlp'', name = ''test''\<rparr> = Inr [i])
   \<and> (\<exists>i. TLPTagValidatorBase_validate_tag (TLPv2TagValidator\<lparr>rule := Some 1\<rparr>)
          \<lparr>namespace = ''tlp'', name = ''test''\<rparr> = Inr [i])
   \<and> \<not> (\<exists>i. TLPTagValidatorBase_validate_tag (TLPTagValidator\<lparr>rule := Some 1\<rparr>)
          \<lparr>namespace = ''tlp'', name = ''white''\<rparr> = Inr [i])
   \<and> \<not> (\<exists>i. TLPTagValidatorBase_validate_tag (TLPv1TagValidator\<lparr>rule := Some 1\<rparr>)
          \<lparr>namespace = ''tlp'', name = ''white''\<rparr> = Inr [i])"
proof -
  have v1: "\<exists>i. TLPTagValidatorBase_validate_tag (TLPv1TagValidator\<lparr>rule := Some 1\<rparr>)
          \<lparr>namespace = ''tlp'', name = ''test''\<rparr> = Inr [i]"
    by (simp add: TLP_validate_tag_rule TLP_fresh_allowed TLP_allowed_sets)
  have v2: "\<exists>i. TLPTagValidatorBase_validate_tag (TLPv2TagValidator\<lparr>rule := Some 1\<rparr>)
          \<lparr>namespace = ''tlp'', name = ''test''\<rparr> = Inr [i]"
    by (simp add: TLP_validate_tag_rule TLP_fresh_allowed TLP_allowed_sets)
  have w1: "\<not> (\<exists>i. TLPTagValidatorBase_validate_tag (TLPv1TagValidator\<lparr>rule := Some 1\<rparr>)
          \<lparr>namespace = ''tlp'', name = ''white''\<rparr> = Inr [i])"
    by (simp add: TLP_validate_tag_rule TLP_fresh_allowed TLP_allowed_sets)
  note iff = tlp_union_flags_iff_both
      [of "TLPTagValidator\<lparr>rule := Some 1\<rparr>" "TLPv1TagValidator\<lparr>rule := Some 1\<rparr>"
        "TLPv2TagValidator\<lparr>rule := Some 1\<rparr>" 1 1 1, THEN conjunct1]
  have u_test: "\<exists>i. TLPTagValidatorBase_validate_tag (TLPTagValidator\<lparr>rule := Some 1\<rparr>)
          \<lparr>namespace = ''tlp'', name = ''test''\<rparr> = Inr [i]"
    using iff [of "\<lparr>namespace = ''tlp'', name = ''test''\<rparr>"] v1 v2
    by (simp add: TLP_fresh_allowed)
  have u_white: "\<not> (\<exists>i. TLPTagValidatorBase_validate_tag (TLPTagValidator\<lparr>rule := Some 1\<rparr>)
          \<lparr>namespace = ''tlp'', name = ''white''\<rparr> = Inr [i])"
    using iff [of "\<lparr>namespace = ''tlp'', name = ''white''\<rparr>"] w1
    by (simp add: TLP_fresh_allowed)
  from u_test v1 v2 u_white w1 show ?thesis by blast
qed

text \<open>
  Claim C10. A list that \<^verbatim>\<open>validate_tag\<close> of the ATT&CK validator or of a TLP
  validator returns has at most one element, and every issue in it has severity MEDIUM,
  carries the tag that was checked and implicates exactly the rule under validation; with
  a rule under validation every call returns such a list.
\<close>

theorem validate_tag_issue_shape:
  "(ATTACKTagValidator_validate_tag self t = Inr issues \<longrightarrow>
      length issues \<le> 1
      \<and> (\<forall>i \<in> set issues. severity i = MEDIUM \<and> tag i = t
             \<and> (\<exists>r. rule self = Some r \<and> rules i = [r])))
   \<and> (TLPTagValidatorBase_validate_tag self t = Inr issues \<longrightarrow>
      length issues \<le> 1
      \<and> (\<forall>i \<in> set issues. severity i = MEDIUM \<and> tag i = t
             \<and> (\<exists>r. rule self = Some r \<and> rules i = [r])))
   \<and> (rule self = Some r \<longrightarrow>
        (\<exists>xs. ATTACKTagValidator_validate_tag self t = Inr xs)
      \<and> (\<exists>xs. TLPTagValidatorBase_validate_tag self t = Inr xs))"
  by (auto simp: ATTACKTagValidator_validate_tag_def TLPTagValidatorBase_validate_tag_def
      split: if_splits option.splits)

theorem validate_tag_issue_shape_witness:
  "ATTACKTagValidator_validate_tag \<lparr>allowed_tags = {''t1059''}, rule = Some 4\<rparr>
       \<lparr>namespace = ''attack'', name = ''test1''\<rparr>
     = Inr [InvalidATTACKTagIssue [4] \<lparr>namespace = ''attack'', name = ''test1''\<rparr>]
   \<and> length [InvalidATTACKTagIssue [4] \<lparr>namespace = ''attack'', name = ''test1''\<rparr>] \<le> 1
   \<and> severity (InvalidATTACKTagIssue [4] \<lparr>namespace = ''attack'', name = ''test1''\<rparr>) = MEDIUM
   \<and> tag (InvalidATTACKTagIssue [4] \<lparr>namespace = ''attack'', name = ''test1''\<rparr>)
        = \<lparr>namespace = ''attack'', name = ''test1''\<rparr>
   \<and> rules (InvalidATTACKTagIssue [4] \<lparr>namespace = ''attack'', name = ''test1''\<rparr>) = [4]
   \<and> (\<exists>xs. TLPTagValidatorBase_validate_tag \<lparr>allowed_tags = {''t1059''}, rule = Some 4\<rparr>
       \<lparr>namespace = ''attack'', name = ''test1''\<rparr> = Inr xs)"
proof -
  have call: "ATTACKTagValidator_validate_tag \<lparr>allowed_tags = {''t1059''}, rule = Some 4\<rparr>
       \<lparr>namespace = ''attack'', name = ''test1''\<rparr>
     = Inr [InvalidATTACKTagIssue [4] \<lparr>namespace = ''attack'', name = ''test1''\<rparr>]"
    by (simp add: ATTACKTagValidator_validate_tag_def)
  show ?thesis
    using call validate_tag_issue_shape
        [of "\<lparr>allowed_tags = {''t1059''}, rule = Some 4\<rparr>"
          "\<lparr>namespace = ''attack'', name = ''test1''\<rparr>"
          "[InvalidATTACKTagIssue [4] \<lparr>namespace = ''attack'', name = ''test1''\<rparr>]" 4]
    by simp
qed

text \<open>
  The inherited \<^verbatim>\<open>validate\<close> alone does not make two calls in a row agree: a
  \<^verbatim>\<open>validate_tag\<close> that remembered the names it has flagged in \<open>allowed_tags\<close> would
  flag a tag in the first call and pass it in the second.
\<close>

lemma validate_twice_differs_for_a_storing_validate_tag:
  "\<exists>vt self store r.
     fst (SigmaTagValidator_validate vt self store r) \<noteq>
     fst (SigmaTagValidator_validate vt
            (fst (snd (SigmaTagValidator_validate vt self store r)))
            (snd (snd (SigmaTagValidator_validate vt self store r))) r)"
proof -
  let ?vt = "\<lambda>v (st :: rule_store) t.
      (if name t \<notin> allowed_tags v then Inr [InvalidTLPTagIssue [] t] else Inr [],
       v\<lparr>allowed_tags := insert (name t) (allowed_tags v)\<rparr>, st)"
  let ?self = "\<lparr>allowed_tags = {}, rule = None\<rparr>"
  let ?store = "\<lambda>_::rule_ref. tlp_test_rule [\<lparr>namespace = ''tlp'', name = ''test''\<rparr>]"
  have "fst (SigmaTagValidator_validate ?vt ?self ?store 0) \<noteq>
     fst (SigmaTagValidator_validate ?vt
            (fst (snd (SigmaTagValidator_validate ?vt ?self ?store 0)))
            (snd (snd (SigmaTagValidator_validate ?vt ?self ?store 0))) 0)"
    by (simp add: SigmaTagValidator_validate_def tlp_test_rule_def)
  then show ?thesis by blast
qed



text \<open>
  The inherited \<^verbatim>\<open>validate\<close> alone does not keep the rules as they were: it hands on
  the store that the calls of \<^verbatim>\<open>validate_tag\<close> leave, and a \<^verbatim>\<open>validate_tag\<close> that
  cleared the tags of the rules would change the inspected rule.
\<close>

lemma validate_changes_rule_for_a_writing_validate_tag:
  "\<exists>vt self store r.
     tags (snd (snd (SigmaTagValidator_validate vt self store r)) r) \<noteq> tags (store r)"
proof -
  let ?vt = "\<lambda>(v :: SigmaTagValidator) (st :: rule_store) (t :: SigmaRuleTag).
      (Inr [] :: error + SigmaTagValidationIssue list, v, \<lambda>q. (st q)\<lparr>tags := []\<rparr>)"
  let ?self = "\<lparr>allowed_tags = {}, rule = None\<rparr>"
  let ?store = "\<lambda>_::rule_ref. tlp_test_rule [\<lparr>namespace = ''tlp'', name = ''test''\<rparr>]"
  have "tags (snd (snd (SigmaTagValidator_validate ?vt ?self ?store 0)) 0) \<noteq> tags (?store 0)"
    by (simp add: SigmaTagValidator_validate_def tlp_test_rule_def)
  then show ?thesis by blast
qed



text \<open>
  Claim C6, as the code has it. Construction of the ATT&CK validator has no failing
  branch: for any tactic and technique catalogs, empty ones too, it completes with the
  allow-set built from them. With empty catalogs the allow-set is empty and every tag of
  namespace \<^verbatim>\<open>attack\<close> is flagged with one issue.
\<close>

theorem attack_construct_always_completes:
  "\<exists>v. ATTACKTagValidator_construct T Q = Inr v
       \<and> allowed_tags v =
            (\<lambda>tactic. str_replace CHR ''-'' CHR ''_'' (str_lower tactic)) ` ran T
            \<union> str_lower ` dom Q
       \<and> (T = Map.empty \<and> Q = Map.empty \<longrightarrow>
            allowed_tags v = {}
          \<and> (\<forall>t r. namespace t = ''attack'' \<longrightarrow>
                ATTACKTagValidator_validate_tag (v\<lparr>rule := Some r\<rparr>) t =
                  Inr [InvalidATTACKTagIssue [r] t]))"
  by (simp add: ATTACKTagValidator_construct_def ATTACKTagValidator_init_def
      ATTACKTagValidator_validate_tag_def)

theorem attack_construct_always_completes_witness:
  "\<exists>v. ATTACKTagValidator_construct Map.empty Map.empty = Inr v
       \<and> allowed_tags v = {}
       \<and> ATTACKTagValidator_validate_tag (v\<lparr>rule := Some 0\<rparr>)
            \<lparr>namespace = ''attack'', name = ''t1059''\<rparr> =
          Inr [InvalidATTACKTagIssue [0] \<lparr>namespace = ''attack'', name = ''t1059''\<rparr>]"
  using attack_construct_always_completes [of Map.empty Map.empty]
  by auto

text \<open>
  Claim C6 as stated fails: with both catalogs empty, construction completes, the
  validator it leaves has the empty allow-set, and validating a rule tagged
  \<^verbatim>\<open>attack.t1059\<close> with it returns an issue for the tag.
\<close>

theorem attack_construct_empty_catalogs_counterexample:
  "ATTACKTagValidator_construct Map.empty Map.empty = Inr \<lparr>allowed_tags = {}, rule = None\<rparr>
   \<and> fst (ATTACKTagValidator_validate \<lparr>allowed_tags = {}, rule = None\<rparr>
          (\<lambda>_. tlp_test_rule [\<lparr>namespace = ''attack'', name = ''t1059''\<rparr>]) 0)
     = Inr [InvalidATTACKTagIssue [0] \<lparr>namespace = ''attack'', name = ''t1059''\<rparr>]"
  by (simp add: ATTACKTagValidator_construct_def ATTACKTagValidator_init_def
      ATTACK_validate_result tlp_test_rule_def)

section \<open>Properties of the dangling-detection validator\<close>

lemma fold_union_acc:
  "fold (\<lambda>c R. R \<union> f c) cs A = A \<union> (\<Union>c \<in> set cs. f c)"
  by (induction cs arbitrary: A) auto

lemma referenced_names_Union:
  "referenced_names D conds = (\<Union>c \<in> set conds. condition_referenced D c)"
  by (simp add: referenced_names_def fold_union_acc)

lemma resolve_reference_iff:
  "n \<in> resolve_reference D ref \<longleftrightarrow>
     n \<in> set D \<and> (ref = LiteralName n \<or> (\<exists>p. ref = WildcardPattern p \<and> glob_match p n) \<or> ref = Them)"
  by (cases ref) auto

lemma condition_referenced_references:
  "condition_referenced D c = (\<Union>ref \<in> references c. resolve_reference D ref)"
  by (induction c) auto

lemma referenced_names_iff:
  "n \<in> referenced_names D conds \<longleftrightarrow>
     n \<in> set D \<and> (\<exists>c \<in> set conds. \<exists>ref \<in> references c.
        ref = LiteralName n \<or> (\<exists>p. ref = WildcardPattern p \<and> glob_match p n) \<or> ref = Them)"
  unfolding referenced_names_Union condition_referenced_references
  by (auto simp: resolve_reference_iff)

lemma glob_star_all: "glob_match ''*'' s"
  by (induction s) auto

lemma glob_prefix:
  "CHR ''*'' \<notin> set p \<Longrightarrow> glob_match (p @ ''*'') s \<longleftrightarrow> (\<exists>t. s = p @ t)"
proof (induction p arbitrary: s)
  case Nil
  then show ?case using glob_star_all by simp
next
  case (Cons a p)
  then show ?case by (cases s) auto
qed

lemma dangling_names:
  "map detection_name (DanglingDetectionValidator_validate store r) =
     filter (\<lambda>n. n \<notin> referenced_names (map fst (detections (store r))) (condition (store r)))
       (map fst (detections (store r)))"
  by (simp add: DanglingDetectionValidator_validate_def Let_def comp_def)

lemma dangling_rules_single:
  "i \<in> set (DanglingDetectionValidator_validate store r) \<Longrightarrow> dangling_rules i = [r]"
  by (auto simp: DanglingDetectionValidator_validate_def Let_def)

lemma count_filter_distinct:
  "distinct xs \<Longrightarrow> length (filter (\<lambda>x. x = n) (filter P xs)) = (if n \<in> set xs \<and> P n then 1 else 0)"
  by (induction xs) auto

lemma dangling_count:
  assumes "distinct (map fst (detections (store r)))"
  shows "length (filter (\<lambda>i. detection_name i = n) (DanglingDetectionValidator_validate store r)) =
     (if n \<in> fst ` set (detections (store r))
         \<and> n \<notin> referenced_names (map fst (detections (store r))) (condition (store r))
      then 1 else 0)"
proof -
  have "length (filter (\<lambda>i. detection_name i = n) (DanglingDetectionValidator_validate store r)) =
        length (filter (\<lambda>x. x = n) (map detection_name (DanglingDetectionValidator_validate store r)))"
    by (simp add: filter_map comp_def)
  also have "\<dots> = (if n \<in> set (map fst (detections (store r)))
         \<and> n \<notin> referenced_names (map fst (detections (store r))) (condition (store r))
      then 1 else 0)"
    unfolding dangling_names using assms by (rule count_filter_distinct)
  finally show ?thesis by simp
qed

lemma dangling_them:
  assumes "c \<in> set (condition (store r))" and "Them \<in> references c"
  shows "DanglingDetectionValidator_validate store r = []"
proof -
  have "n \<in> referenced_names (map fst (detections (store r))) (condition (store r))"
    if "n \<in> set (map fst (detections (store r)))" for n
    using that assms unfolding referenced_names_iff by blast
  then show ?thesis
    by (simp add: DanglingDetectionValidator_validate_def Let_def filter_empty_conv)
qed

lemma dangling_abc:
  "map fst (detections (store r)) = [''a'', ''b'', ''c''] \<Longrightarrow>
   condition (store r) =
     [ConditionAND (ConditionOR (ConditionReference (LiteralName ''a''))
                                (ConditionReference (LiteralName ''b'')))
                   (ConditionReference (LiteralName ''c''))] \<Longrightarrow>
   DanglingDetectionValidator_validate store r = []"
  by (simp add: DanglingDetectionValidator_validate_def referenced_names_def)

lemma dangling_abcd:
  "map fst (detections (store r)) = [''a'', ''b'', ''c'', ''d''] \<Longrightarrow>
   condition (store r) =
     [ConditionAND (ConditionOR (ConditionReference (LiteralName ''a''))
                                (ConditionReference (LiteralName ''b'')))
                   (ConditionReference (LiteralName ''c''))] \<Longrightarrow>
   DanglingDetectionValidator_validate store r = [DanglingDetectionIssue [r] ''d'']"
  by (simp add: DanglingDetectionValidator_validate_def referenced_names_def)

lemma dangling_ref_wildcard:
  "map fst (detections (store r)) = [''ref1'', ''ref2'', ''ref3''] \<Longrightarrow>
   condition (store r) = [ConditionSelector OneOf (WildcardPattern ''ref*'')] \<Longrightarrow>
   DanglingDetectionValidator_validate store r = []"
  by (simp add: DanglingDetectionValidator_validate_def referenced_names_def)

text \<open>
  Claim C4. On a single rule, with \<open>D\<close> the names of the detection mapping in order and
  \<open>R\<close> the names reached from the rule's condition expressions, the dangling-detection
  validator emits the names of \<open>D\<close> outside \<open>R\<close>, in the order of \<open>D\<close>, each issue
  implicating the rule alone; the names of a mapping being distinct, that is exactly one
  issue per such name and none for any other. A name is reached when it is defined and
  some reference node of some condition, under any nesting, is the literal name, a
  wildcard pattern matching it, or \<^verbatim>\<open>them\<close>; a pattern of a star-free prefix followed
  by a star matches the names with that prefix. Detections a, b, c with condition
  \<^verbatim>\<open>(a or b) and c\<close> yield no issue, with a further detection d exactly one issue
  naming d; \<^verbatim>\<open>1 of ref*\<close> over ref1, ref2, ref3 yields none; \<^verbatim>\<open>1 of them\<close>
  yields none for any detections.
\<close>

theorem dangling_detection_issues:
  assumes D: "D = map fst (detections (store r))"
    and R: "R = referenced_names D (condition (store r))"
  shows "map detection_name (DanglingDetectionValidator_validate store r) =
           filter (\<lambda>n. n \<notin> R) D
    \<and> (\<forall>i \<in> set (DanglingDetectionValidator_validate store r). dangling_rules i = [r])
    \<and> (distinct D \<longrightarrow>
         length (filter (\<lambda>i. detection_name i = n) (DanglingDetectionValidator_validate store r)) =
           (if n \<in> set D \<and> n \<notin> R then 1 else 0))
    \<and> (n \<in> R \<longleftrightarrow>
         n \<in> set D \<and> (\<exists>c \<in> set (condition (store r)). \<exists>ref \<in> references c.
            ref = LiteralName n \<or> (\<exists>p. ref = WildcardPattern p \<and> glob_match p n) \<or> ref = Them))
    \<and> (CHR ''*'' \<notin> set p \<longrightarrow> glob_match (p @ ''*'') n = (\<exists>t. n = p @ t))
    \<and> (D = [''a'', ''b'', ''c'']
         \<and> condition (store r) =
             [ConditionAND (ConditionOR (ConditionReference (LiteralName ''a''))
                                        (ConditionReference (LiteralName ''b'')))
                           (ConditionReference (LiteralName ''c''))] \<longrightarrow>
         DanglingDetectionValidator_validate store r = [])
    \<and> (D = [''a'', ''b'', ''c'', ''d'']
         \<and> condition (store r) =
             [ConditionAND (ConditionOR (ConditionReference (LiteralName ''a''))
                                        (ConditionReference (LiteralName ''b'')))
                           (ConditionReference (LiteralName ''c''))] \<longrightarrow>
         DanglingDetectionValidator_validate store r = [DanglingDetectionIssue [r] ''d''])
    \<and> (D = [''ref1'', ''ref2'', ''ref3'']
         \<and> condition (store r) = [ConditionSelector OneOf (WildcardPattern ''ref*'')] \<longrightarrow>
         DanglingDetectionValidator_validate store r = [])
    \<and> (condition (store r) = [ConditionSelector OneOf Them] \<longrightarrow>
         DanglingDetectionValidator_validate store r = [])"
proof -
  have names: "map detection_name (DanglingDetectionValidator_validate store r) =
           filter (\<lambda>n. n \<notin> R) D"
    unfolding D R by (rule dangling_names)
  have single: "\<forall>i \<in> set (DanglingDetectionValidator_validate store r). dangling_rules i = [r]"
    by (simp add: dangling_rules_single)
  have count: "distinct D \<longrightarrow>
         length (filter (\<lambda>i. detection_name i = n) (DanglingDetectionValidator_validate store r)) =
           (if n \<in> set D \<and> n \<notin> R then 1 else 0)"
    unfolding D R using dangling_count [of store r n] by simp
  have reach: "n \<in> R \<longleftrightarrow>
         n \<in> set D \<and> (\<exists>c \<in> set (condition (store r)). \<exists>ref \<in> references c.
            ref = LiteralName n \<or> (\<exists>p. ref = WildcardPattern p \<and> glob_match p n) \<or> ref = Them)"
    unfolding R by (rule referenced_names_iff)
  have pre: "CHR ''*'' \<notin> set p \<longrightarrow> glob_match (p @ ''*'') n = (\<exists>t. n = p @ t)"
    by (simp add: glob_prefix)
  have them: "condition (store r) = [ConditionSelector OneOf Them] \<longrightarrow>
         DanglingDetectionValidator_validate store r = []"
    using dangling_them [of "ConditionSelector OneOf Them" store r] by simp
  have abc: "D = [''a'', ''b'', ''c'']
         \<and> condition (store r) =
             [ConditionAND (ConditionOR (ConditionReference (LiteralName ''a''))
                                        (ConditionReference (LiteralName ''b'')))
                           (ConditionReference (LiteralName ''c''))] \<longrightarrow>
         DanglingDetectionValidator_validate store r = []"
    unfolding D using dangling_abc [of store r] by simp
  have abcd: "D = [''a'', ''b'', ''c'', ''d'']
         \<and> condition (store r) =
             [ConditionAND (ConditionOR (ConditionReference (LiteralName ''a''))
                                        (ConditionReference (LiteralName ''b'')))
                           (ConditionReference (LiteralName ''c''))] \<longrightarrow>
         DanglingDetectionValidator_validate store r = [DanglingDetectionIssue [r] ''d'']"
    unfolding D using dangling_abcd [of store r] by simp
  have refs: "D = [''ref1'', ''ref2'', ''ref3'']
         \<and> condition (store r) = [ConditionSelector OneOf (WildcardPattern ''ref*'')] \<longrightarrow>
         DanglingDetectionValidator_validate store r = []"
    unfolding D using dangling_ref_wildcard [of store r] by simp
  show ?thesis
    by (intro conjI; fact)
qed

theorem dangling_detection_issues_witness:
  "DanglingDetectionValidator_validate
      (\<lambda>_. dangling_test_rule
         [detection_of ''a'' ''field1'' ''val1'', detection_of ''b'' ''field2'' ''val2'',
          detection_of ''c'' ''field3'' ''val3'', detection_of ''d'' ''field4'' ''val4'']
         (ConditionAND (ConditionOR (ConditionReference (LiteralName ''a''))
                                    (ConditionReference (LiteralName ''b'')))
                       (ConditionReference (LiteralName ''c'')))) 0
     = [DanglingDetectionIssue [0] ''d'']
   \<and> length (filter (\<lambda>i. detection_name i = ''d'')
        (DanglingDetectionValidator_validate
          (\<lambda>_. dangling_test_rule
             [detection_of ''a'' ''field1'' ''val1'', detection_of ''b'' ''field2'' ''val2'',
              detection_of ''c'' ''field3'' ''val3'', detection_of ''d'' ''field4'' ''val4'']
             (ConditionAND (ConditionOR (ConditionReference (LiteralName ''a''))
                                        (ConditionReference (LiteralName ''b'')))
                           (ConditionReference (LiteralName ''c'')))) 0)) = 1
   \<and> glob_match ''ref*'' ''ref1''"
proof -
  let ?cond = "ConditionAND (ConditionOR (ConditionReference (LiteralName ''a''))
                                    (ConditionReference (LiteralName ''b'')))
                       (ConditionReference (LiteralName ''c''))"
  let ?store = "\<lambda>_::rule_ref. dangling_test_rule
         [detection_of ''a'' ''field1'' ''val1'', detection_of ''b'' ''field2'' ''val2'',
          detection_of ''c'' ''field3'' ''val3'', detection_of ''d'' ''field4'' ''val4'']
         ?cond"
  have D: "[''a'', ''b'', ''c'', ''d''] = map fst (detections (?store 0))"
    by (simp add: dangling_test_rule_def detection_of_def)
  have c: "condition (?store 0) = [?cond]"
    by (simp add: dangling_test_rule_def)
  have R: "{''a'', ''b'', ''c''} = referenced_names [''a'', ''b'', ''c'', ''d''] (condition (?store 0))"
    by (auto simp: c referenced_names_def)
  note th = dangling_detection_issues
      [where store = ?store and r = 0 and D = "[''a'', ''b'', ''c'', ''d'']"
        and R = "{''a'', ''b'', ''c''}" and n = "''d''" and p = "''ref''", OF D R]
  have "DanglingDetectionValidator_validate ?store 0 = [DanglingDetectionIssue [0] ''d'']"
    using th c by simp
  moreover have "length (filter (\<lambda>i. detection_name i = ''d'')
      (DanglingDetectionValidator_validate ?store 0)) = 1"
    using th by simp
  moreover have "glob_match ''ref*'' ''ref1''"
    by simp
  ultimately show ?thesis by simp
qed

section \<open>Properties of the modifier-combination validator\<close>

lemma map_of_counter_add:
  "map_of (counter_add x t) =
     (map_of t)(x \<mapsto> (case map_of t x of None \<Rightarrow> 1 | Some n \<Rightarrow> Suc n))"
  by (induction x t rule: counter_add.induct) (auto simp: fun_upd_twist)

lemma keys_counter_add: "fst ` set (counter_add x t) = insert x (fst ` set t)"
  by (induction x t rule: counter_add.induct) auto

lemma distinct_counter_add:
  "distinct (map fst t) \<Longrightarrow> distinct (map fst (counter_add x t))"
proof (induction x t rule: counter_add.induct)
  case (1 x)
  then show ?case by simp
next
  case (2 x y n t)
  then show ?case
    using keys_counter_add [of x t] by auto
qed

lemma distinct_fold_counter_add:
  "distinct (map fst t) \<Longrightarrow> distinct (map fst (fold counter_add xs t))"
  by (induction xs arbitrary: t) (simp_all add: distinct_counter_add)

lemma map_of_fold_counter_add:
  "map_of (fold counter_add xs t) y =
     (case map_of t y of
        None \<Rightarrow> if y \<in> set xs then Some (count_list xs y) else None
      | Some n \<Rightarrow> Some (n + count_list xs y))"
proof (induction xs arbitrary: t)
  case Nil
  then show ?case by (simp split: option.splits)
next
  case (Cons x xs)
  show ?case
    by (simp add: Cons.IH map_of_counter_add count_list_0_iff split: option.splits)
qed

lemma Counter_member:
  "(y, n) \<in> set (Counter xs) \<longleftrightarrow> y \<in> set xs \<and> n = count_list xs y"
proof -
  have "distinct (map fst (Counter xs))"
    unfolding Counter_def by (rule distinct_fold_counter_add) simp
  then have "(y, n) \<in> set (Counter xs) \<longleftrightarrow> map_of (Counter xs) y = Some n"
    by simp
  also have "\<dots> \<longleftrightarrow> y \<in> set xs \<and> n = count_list xs y"
    by (auto simp: Counter_def map_of_fold_counter_add)
  finally show ?thesis .
qed

lemma multiple_modifiers_eq:
  "multiple_modifiers mods = {m. m \<noteq> SigmaBase64Modifier \<and> 1 < count_list mods m}"
proof -
  have "1 < count_list mods m \<Longrightarrow> m \<in> set mods" for m
    using count_list_0_iff [of mods m] by auto
  then show ?thesis
    unfolding multiple_modifiers_def multiple_exempt_modifiers_def
    by (auto simp: Counter_member image_iff)
qed

lemma base64offset_without_contains_iff:
  "base64offset_without_contains ms \<longleftrightarrow>
     (\<exists>pre post. ms = pre @ SigmaBase64OffsetModifier # post
        \<and> (\<forall>m \<in> set post. \<not> is_contains_family m))"
proof (induction ms)
  case Nil
  then show ?case by simp
next
  case (Cons m ms)
  show ?case
  proof
    assume "base64offset_without_contains (m # ms)"
    then consider "m = SigmaBase64OffsetModifier" "\<not> list_ex is_contains_family ms"
      | "base64offset_without_contains ms" by auto
    then show "\<exists>pre post. m # ms = pre @ SigmaBase64OffsetModifier # post
        \<and> (\<forall>m \<in> set post. \<not> is_contains_family m)"
    proof cases
      case 1
      then have "m # ms = [] @ SigmaBase64OffsetModifier # ms
          \<and> (\<forall>m \<in> set ms. \<not> is_contains_family m)"
        by (simp add: list_ex_iff)
      then show ?thesis by blast
    next
      case 2
      with Cons.IH obtain pre post where "ms = pre @ SigmaBase64OffsetModifier # post"
        and "\<forall>m \<in> set post. \<not> is_contains_family m" by blast
      then have "m # ms = (m # pre) @ SigmaBase64OffsetModifier # post
          \<and> (\<forall>m \<in> set post. \<not> is_contains_family m)" by simp
      then show ?thesis by blast
    qed
  next
    assume "\<exists>pre post. m # ms = pre @ SigmaBase64OffsetModifier # post
        \<and> (\<forall>m \<in> set post. \<not> is_contains_family m)"
    then obtain pre post where split: "m # ms = pre @ SigmaBase64OffsetModifier # post"
      and free: "\<forall>m \<in> set post. \<not> is_contains_family m" by blast
    show "base64offset_without_contains (m # ms)"
    proof (cases pre)
      case Nil
      with split free show ?thesis by (simp add: list_ex_iff)
    next
      case (Cons a pre')
      with split have "ms = pre' @ SigmaBase64OffsetModifier # post" by simp
      with free Cons.IH have "base64offset_without_contains ms" by blast
      then show ?thesis by simp
    qed
  qed
qed

lemma validate_item_all_issues:
  "filter is_AllWithoutContainsModifierIssue
     (InvalidModifierCombinationsValidator_validate_detection_item r item) =
   (if field item \<noteq> None \<and> SigmaAllModifier \<in> set (modifiers item)
       \<and> (\<forall>m \<in> set (modifiers item). \<not> is_contains_family m)
    then [AllWithoutContainsModifierIssue [r] item] else [])"
  by (simp add: InvalidModifierCombinationsValidator_validate_detection_item_def Let_def
      list_ex_iff)

lemma validate_item_base64offset_issues:
  "filter is_Base64OffsetWithoutContainsModifierIssue
     (InvalidModifierCombinationsValidator_validate_detection_item r item) =
   (if \<exists>pre post. modifiers item = pre @ SigmaBase64OffsetModifier # post
          \<and> (\<forall>m \<in> set post. \<not> is_contains_family m)
    then [Base64OffsetWithoutContainsModifierIssue [r] item] else [])"
  unfolding base64offset_without_contains_iff [symmetric]
  by (simp add: InvalidModifierCombinationsValidator_validate_detection_item_def Let_def)

lemma validate_item_multiple_issues:
  "filter is_ModifierAppliedMultipleIssue
     (InvalidModifierCombinationsValidator_validate_detection_item r item) =
   (if \<exists>m. m \<noteq> SigmaBase64Modifier \<and> 1 < count_list (modifiers item) m
    then [ModifierAppliedMultipleIssue [r] item
            {m. m \<noteq> SigmaBase64Modifier \<and> 1 < count_list (modifiers item) m}]
    else [])"
proof -
  have "multiple_modifiers (modifiers item) \<noteq> {} \<longleftrightarrow>
      (\<exists>m. m \<noteq> SigmaBase64Modifier \<and> 1 < count_list (modifiers item) m)"
    unfolding multiple_modifiers_eq by blast
  then show ?thesis
    by (simp add: InvalidModifierCombinationsValidator_validate_detection_item_def Let_def
        multiple_modifiers_eq)
qed

lemma validate_single_item:
  "detections (store r) = [(n, [item])] \<Longrightarrow>
   InvalidModifierCombinationsValidator_validate store r =
     InvalidModifierCombinationsValidator_validate_detection_item r item"
  by (simp add: InvalidModifierCombinationsValidator_validate_def)

lemma modifier_test_rule_detections:
  "detections (modifier_test_rule item) = [(''sel'', [item])]"
  by (simp add: modifier_test_rule_def)

lemma item_eval:
  "InvalidModifierCombinationsValidator_validate_detection_item r
     \<lparr>field = Some ''field'', modifiers = [SigmaAllModifier],
      item_values = [''value1'', ''value2'', ''value3'']\<rparr>
   = [AllWithoutContainsModifierIssue [r]
       \<lparr>field = Some ''field'', modifiers = [SigmaAllModifier],
        item_values = [''value1'', ''value2'', ''value3'']\<rparr>]"
  "InvalidModifierCombinationsValidator_validate_detection_item r
     \<lparr>field = None, modifiers = [SigmaAllModifier],
      item_values = [''value1'', ''value2'', ''value3'']\<rparr> = []"
  "InvalidModifierCombinationsValidator_validate_detection_item r
     \<lparr>field = Some ''field'', modifiers = [SigmaContainsModifier, SigmaAllModifier],
      item_values = [''value1'', ''value2'', ''value3'']\<rparr> = []"
  "InvalidModifierCombinationsValidator_validate_detection_item r
     \<lparr>field = Some ''field'', modifiers = [SigmaBase64OffsetModifier],
      item_values = [''value'']\<rparr>
   = [Base64OffsetWithoutContainsModifierIssue [r]
       \<lparr>field = Some ''field'', modifiers = [SigmaBase64OffsetModifier],
        item_values = [''value'']\<rparr>]"
  "InvalidModifierCombinationsValidator_validate_detection_item r
     \<lparr>field = Some ''field'', modifiers = [SigmaBase64OffsetModifier, SigmaContainsModifier],
      item_values = [''value'']\<rparr> = []"
  "InvalidModifierCombinationsValidator_validate_detection_item r
     \<lparr>field = Some ''field'',
      modifiers = [SigmaBase64OffsetModifier, SigmaBase64OffsetModifier,
                   SigmaContainsModifier, SigmaContainsModifier],
      item_values = [''value'']\<rparr>
   = [ModifierAppliedMultipleIssue [r]
       \<lparr>field = Some ''field'',
        modifiers = [SigmaBase64OffsetModifier, SigmaBase64OffsetModifier,
                     SigmaContainsModifier, SigmaContainsModifier],
        item_values = [''value'']\<rparr>
       {SigmaBase64OffsetModifier, SigmaContainsModifier}]"
  "InvalidModifierCombinationsValidator_validate_detection_item r
     \<lparr>field = Some ''field'', modifiers = [SigmaBase64Modifier, SigmaBase64Modifier],
      item_values = [''value'']\<rparr> = []"
  by (auto simp: InvalidModifierCombinationsValidator_validate_detection_item_def
      multiple_modifiers_def multiple_exempt_modifiers_def Counter_def is_contains_family_def)

text \<open>
  Claim C5. On a field match specification the validator emits exactly one
  all-without-contains issue when the field is bound, \<^verbatim>\<open>all\<close> is among the modifiers
  and no modifier of the contains family is, and none otherwise, so none for an unbound
  field; it emits exactly one base64offset-without-contains issue when some
  \<^verbatim>\<open>base64offset\<close> of the sequence has no modifier of the contains family after it,
  and none otherwise. \<^verbatim>\<open>field|all\<close> yields one all-without-contains issue,
  \<^verbatim>\<open>|all\<close> and \<^verbatim>\<open>field|contains|all\<close> yield no issue, \<^verbatim>\<open>field|base64offset\<close>
  yields one base64offset-without-contains issue and \<^verbatim>\<open>field|base64offset|contains\<close>
  yields no issue.
\<close>

theorem modifier_combination_issues:
  "filter is_AllWithoutContainsModifierIssue
     (InvalidModifierCombinationsValidator_validate_detection_item r item) =
     (if field item \<noteq> None \<and> SigmaAllModifier \<in> set (modifiers item)
         \<and> (\<forall>m \<in> set (modifiers item). \<not> is_contains_family m)
      then [AllWithoutContainsModifierIssue [r] item] else [])
   \<and> filter is_Base64OffsetWithoutContainsModifierIssue
     (InvalidModifierCombinationsValidator_validate_detection_item r item) =
     (if \<exists>pre post. modifiers item = pre @ SigmaBase64OffsetModifier # post
            \<and> (\<forall>m \<in> set post. \<not> is_contains_family m)
      then [Base64OffsetWithoutContainsModifierIssue [r] item] else [])
   \<and> is_contains_family SigmaContainsModifier
   \<and> InvalidModifierCombinationsValidator_validate
        (\<lambda>_. modifier_test_rule
           \<lparr>field = Some ''field'', modifiers = [SigmaAllModifier],
            item_values = [''value1'', ''value2'', ''value3'']\<rparr>) r
      = [AllWithoutContainsModifierIssue [r]
           \<lparr>field = Some ''field'', modifiers = [SigmaAllModifier],
            item_values = [''value1'', ''value2'', ''value3'']\<rparr>]
   \<and> InvalidModifierCombinationsValidator_validate
        (\<lambda>_. modifier_test_rule
           \<lparr>field = None, modifiers = [SigmaAllModifier],
            item_values = [''value1'', ''value2'', ''value3'']\<rparr>) r = []
   \<and> InvalidModifierCombinationsValidator_validate
        (\<lambda>_. modifier_test_rule
           \<lparr>field = Some ''field'', modifiers = [SigmaContainsModifier, SigmaAllModifier],
            item_values = [''value1'', ''value2'', ''value3'']\<rparr>) r = []
   \<and> InvalidModifierCombinationsValidator_validate
        (\<lambda>_. modifier_test_rule
           \<lparr>field = Some ''field'', modifiers = [SigmaBase64OffsetModifier],
            item_values = [''value'']\<rparr>) r
      = [Base64OffsetWithoutContainsModifierIssue [r]
           \<lparr>field = Some ''field'', modifiers = [SigmaBase64OffsetModifier],
            item_values = [''value'']\<rparr>]
   \<and> InvalidModifierCombinationsValidator_validate
        (\<lambda>_. modifier_test_rule
           \<lparr>field = Some ''field'',
            modifiers = [SigmaBase64OffsetModifier, SigmaContainsModifier],
            item_values = [''value'']\<rparr>) r = []"
  by (simp only: validate_item_all_issues validate_item_base64offset_issues
      validate_single_item [OF modifier_test_rule_detections] item_eval
      is_contains_family_def simp_thms)

theorem modifier_combination_issues_witness:
  "filter is_AllWithoutContainsModifierIssue
     (InvalidModifierCombinationsValidator_validate_detection_item 0
        \<lparr>field = Some ''field'', modifiers = [SigmaAllModifier, SigmaBase64OffsetModifier],
         item_values = [''value'']\<rparr>)
     = [AllWithoutContainsModifierIssue [0]
          \<lparr>field = Some ''field'', modifiers = [SigmaAllModifier, SigmaBase64OffsetModifier],
           item_values = [''value'']\<rparr>]
   \<and> filter is_AllWithoutContainsModifierIssue
     (InvalidModifierCombinationsValidator_validate_detection_item 0
        \<lparr>field = None, modifiers = [SigmaAllModifier, SigmaBase64OffsetModifier],
         item_values = [''value'']\<rparr>) = []"
  using modifier_combination_issues
      [of 0 "\<lparr>field = Some ''field'', modifiers = [SigmaAllModifier, SigmaBase64OffsetModifier],
         item_values = [''value'']\<rparr>"]
    modifier_combination_issues
      [of 0 "\<lparr>field = None, modifiers = [SigmaAllModifier, SigmaBase64OffsetModifier],
         item_values = [''value'']\<rparr>"]
  by (simp add: is_contains_family_def)

text \<open>
  Claim C3, as the validator has it. On a field match specification the validator emits
  exactly one duplicate-modifier issue when a modifier other than \<^verbatim>\<open>base64\<close>
  appears more than once in the modifier sequence, and none otherwise; the issue carries
  the field match specification, with its full modifier sequence, and the set of the
  modifiers other than \<^verbatim>\<open>base64\<close> that appear more than once. The sequence
  base64offset, base64offset, contains, contains yields exactly one issue, a
  duplicate-modifier issue with the set of base64offset and contains; the sequence
  base64, base64 yields no issue.
\<close>

theorem duplicate_modifier_issue:
  "filter is_ModifierAppliedMultipleIssue
     (InvalidModifierCombinationsValidator_validate_detection_item r item) =
     (if \<exists>m. m \<noteq> SigmaBase64Modifier \<and> 1 < count_list (modifiers item) m
      then [ModifierAppliedMultipleIssue [r] item
              {m. m \<noteq> SigmaBase64Modifier \<and> 1 < count_list (modifiers item) m}]
      else [])
   \<and> InvalidModifierCombinationsValidator_validate
        (\<lambda>_. modifier_test_rule
           \<lparr>field = Some ''field'',
            modifiers = [SigmaBase64OffsetModifier, SigmaBase64OffsetModifier,
                         SigmaContainsModifier, SigmaContainsModifier],
            item_values = [''value'']\<rparr>) r
      = [ModifierAppliedMultipleIssue [r]
           \<lparr>field = Some ''field'',
            modifiers = [SigmaBase64OffsetModifier, SigmaBase64OffsetModifier,
                         SigmaContainsModifier, SigmaContainsModifier],
            item_values = [''value'']\<rparr>
           {SigmaBase64OffsetModifier, SigmaContainsModifier}]
   \<and> InvalidModifierCombinationsValidator_validate
        (\<lambda>_. modifier_test_rule
           \<lparr>field = Some ''field'', modifiers = [SigmaBase64Modifier, SigmaBase64Modifier],
            item_values = [''value'']\<rparr>) r = []"
  by (simp only: validate_item_multiple_issues
      validate_single_item [OF modifier_test_rule_detections] item_eval simp_thms)

theorem duplicate_modifier_issue_witness:
  "filter is_ModifierAppliedMultipleIssue
     (InvalidModifierCombinationsValidator_validate_detection_item 0
        \<lparr>field = None,
         modifiers = [SigmaAllModifier, SigmaBase64Modifier, SigmaAllModifier,
                      SigmaBase64Modifier, SigmaAllModifier],
         item_values = [''value'']\<rparr>)
     = [ModifierAppliedMultipleIssue [0]
          \<lparr>field = None,
           modifiers = [SigmaAllModifier, SigmaBase64Modifier, SigmaAllModifier,
                        SigmaBase64Modifier, SigmaAllModifier],
           item_values = [''value'']\<rparr>
          {SigmaAllModifier}]"
proof -
  let ?mods = "[SigmaAllModifier, SigmaBase64Modifier, SigmaAllModifier,
                SigmaBase64Modifier, SigmaAllModifier]"
  have dup: "{m. m \<noteq> SigmaBase64Modifier \<and> 1 < count_list ?mods m} = {SigmaAllModifier}"
    by auto
  have ex: "\<exists>m. m \<noteq> SigmaBase64Modifier \<and> 1 < count_list ?mods m"
    by (rule exI [of _ SigmaAllModifier]) simp
  show ?thesis
    using duplicate_modifier_issue
        [of 0 "\<lparr>field = None, modifiers = ?mods, item_values = [''value'']\<rparr>"] dup ex
    by simp
qed

text \<open>
  Claim C3 as stated fails: \<^verbatim>\<open>base64\<close> appears twice in the sequence base64, base64
  and the validator emits no issue for it.
\<close>

theorem duplicate_base64_not_flagged_counterexample:
  "1 < count_list [SigmaBase64Modifier, SigmaBase64Modifier] SigmaBase64Modifier
   \<and> InvalidModifierCombinationsValidator_validate_detection_item 0
        \<lparr>field = Some ''field'', modifiers = [SigmaBase64Modifier, SigmaBase64Modifier],
         item_values = [''value'']\<rparr> = []"
  by (simp add: item_eval)

end
